theory Spec2Isabelle
  imports Main
begin

section \<open>Python values\<close>

text \<open>
  The program handles dynamically typed data: the configuration comes from
  \<^verbatim>\<open>yaml.safe_load\<close>, the history from \<^verbatim>\<open>json.load\<close>, the answer from the
  backend's JSON body. One datatype covers the values these can produce. Dictionaries
  are association lists in insertion order, with string keys. Floating-point numbers
  are left out.
\<close>

datatype pyval =
    PNone
  | PBool bool
  | PInt int
  | PStr string
  | PList "pyval list"
  | PDict "(string \<times> pyval) list"

text \<open>
  Exceptions that leave a function. \<open>SystemExit n\<close> is what \<^verbatim>\<open>exit(n)\<close> raises.
  \<open>Unmodelled\<close> marks behaviour outside this model (a path given as a file
  descriptor number).
\<close>

datatype py_exc =
    AttributeError
  | TypeError
  | ValueError
  | IndexError
  | FileNotFoundError
  | IsADirectoryError
  | JSONDecodeError
  | YAMLError
  | SystemExit int
  | Unmodelled

type_synonym 'a res = "py_exc + 'a"

text \<open>Truth value of an object, as \<^verbatim>\<open>if x\<close> and \<^verbatim>\<open>not x\<close> test it.\<close>

fun truthy :: "pyval \<Rightarrow> bool" where
  "truthy PNone = False"
| "truthy (PBool b) = b"
| "truthy (PInt i) = (i \<noteq> 0)"
| "truthy (PStr s) = (s \<noteq> [])"
| "truthy (PList xs) = (xs \<noteq> [])"
| "truthy (PDict d) = (d \<noteq> [])"

text \<open>\<^verbatim>\<open>d.get(k, default)\<close> on a dictionary.\<close>

definition dict_get :: "(string \<times> pyval) list \<Rightarrow> string \<Rightarrow> pyval \<Rightarrow> pyval" where
  "dict_get d k dflt = (case map_of d k of None \<Rightarrow> dflt | Some v \<Rightarrow> v)"

text \<open>
  \<^verbatim>\<open>x.get(k, default)\<close> on any object: only a dictionary has the method, every other
  value of the model raises AttributeError.
\<close>

fun py_get :: "pyval \<Rightarrow> string \<Rightarrow> pyval \<Rightarrow> pyval res" where
  "py_get (PDict d) k dflt = Inr (dict_get d k dflt)"
| "py_get _ k dflt = Inl AttributeError"

text \<open>\<^verbatim>\<open>d[k] = v\<close>: an existing key keeps its position, a new key goes last.\<close>

fun dict_set :: "(string \<times> pyval) list \<Rightarrow> string \<Rightarrow> pyval \<Rightarrow> (string \<times> pyval) list" where
  "dict_set [] k v = [(k, v)]"
| "dict_set (p # ps) k v = (if fst p = k then (k, v) # ps else p # dict_set ps k v)"

text \<open>
  The slice \<^verbatim>\<open>xs[:m]\<close> on a sequence of the given elements: a negative bound counts
  from the end, and the bound is clipped to the length.
\<close>

definition slice_to :: "int \<Rightarrow> 'a list \<Rightarrow> 'a list" where
  "slice_to m xs = take (nat (if m < 0 then int (length xs) + m else m)) xs"

text \<open>
  \<^verbatim>\<open>x[:m]\<close> on objects. The bound is None (no bound), an integer or a boolean (which
  is an integer in Python); lists and strings can be sliced.
\<close>

fun slice_bound :: "pyval \<Rightarrow> int option res" where
  "slice_bound PNone = Inr None"
| "slice_bound (PInt i) = Inr (Some i)"
| "slice_bound (PBool b) = Inr (Some (if b then 1 else 0))"
| "slice_bound _ = Inl TypeError"

definition slice_opt :: "int option \<Rightarrow> 'a list \<Rightarrow> 'a list" where
  "slice_opt b xs = (case b of None \<Rightarrow> xs | Some m \<Rightarrow> slice_to m xs)"

fun py_slice_to :: "pyval \<Rightarrow> pyval \<Rightarrow> pyval res" where
  "py_slice_to (PList xs) m =
     (case slice_bound m of Inl e \<Rightarrow> Inl e | Inr b \<Rightarrow> Inr (PList (slice_opt b xs)))"
| "py_slice_to (PStr s) m =
     (case slice_bound m of Inl e \<Rightarrow> Inl e | Inr b \<Rightarrow> Inr (PStr (slice_opt b s)))"
| "py_slice_to _ m = Inl TypeError"

text \<open>Iterating an object, as the unpacking \<^verbatim>\<open>[*history, ...]\<close> does.\<close>

fun py_iter :: "pyval \<Rightarrow> pyval list res" where
  "py_iter (PList xs) = Inr xs"
| "py_iter (PStr s) = Inr (map (\<lambda>c. PStr [c]) s)"
| "py_iter (PDict d) = Inr (map (\<lambda>p. PStr (fst p)) d)"
| "py_iter _ = Inl TypeError"

section \<open>Strings\<close>

text \<open>Characters that \<^verbatim>\<open>str.isspace\<close> accepts, among the code points below 256.\<close>

definition py_isspace :: "char \<Rightarrow> bool" where
  "py_isspace c \<longleftrightarrow>
     (let n = (of_char c :: nat) in (9 \<le> n \<and> n \<le> 13) \<or> (28 \<le> n \<and> n \<le> 32) \<or> n = 133 \<or> n = 160)"

text \<open>\<^verbatim>\<open>s.strip()\<close>\<close>

definition strip :: "string \<Rightarrow> string" where
  "strip s = rev (dropWhile py_isspace (rev (dropWhile py_isspace s)))"

text \<open>
  \<^verbatim>\<open>s.split(sep)\<close> for a non-empty separator: the pieces between the occurrences of
  the separator, found from the left without overlap. \<open>cur\<close> holds the current piece
  reversed.
\<close>

function split_from :: "string \<Rightarrow> string \<Rightarrow> string \<Rightarrow> string list" where
  "split_from sep cur s =
     (if s = [] then [rev cur]
      else if sep \<noteq> [] \<and> take (length sep) s = sep
        then rev cur # split_from sep [] (drop (length sep) s)
      else split_from sep (hd s # cur) (tl s))"
  by pat_completeness auto
termination
  by (relation "measure (\<lambda>(sep, cur, s). length s)") auto

text \<open>\<^verbatim>\<open>s.split()\<close> and \<^verbatim>\<open>s.split(None)\<close>: the maximal runs of non-space characters.\<close>

fun split_ws :: "string \<Rightarrow> string \<Rightarrow> string list" where
  "split_ws cur [] = (if cur = [] then [] else [rev cur])"
| "split_ws cur (c # cs) =
     (if py_isspace c then (if cur = [] then split_ws [] cs else rev cur # split_ws [] cs)
      else split_ws (c # cur) cs)"

fun py_split :: "string \<Rightarrow> pyval \<Rightarrow> string list res" where
  "py_split s PNone = Inr (split_ws [] s)"
| "py_split s (PStr sep) = (if sep = [] then Inl ValueError else Inr (split_from sep [] s))"
| "py_split s _ = Inl TypeError"

text \<open>\<^verbatim>\<open>xs[-1]\<close>\<close>

definition py_last :: "'a list \<Rightarrow> 'a res" where
  "py_last xs = (if xs = [] then Inl IndexError else Inr (last xs))"

section \<open>The JSON library\<close>

text \<open>
  \<^verbatim>\<open>json.dumps\<close> with its default settings: \<^verbatim>\<open>", "\<close> between items, \<^verbatim>\<open>": "\<close> after
  a key, and every character outside the printable ASCII range escaped.
\<close>

definition hex_digit :: "nat \<Rightarrow> char" where
  "hex_digit n = ''0123456789abcdef'' ! (n mod 16)"

definition escape_char :: "char \<Rightarrow> string" where
  "escape_char c =
     (if c = CHR 0x22 then [CHR 0x5C, CHR 0x22]
      else if c = CHR 0x5C then [CHR 0x5C, CHR 0x5C]
      else if c = CHR 0x0A then [CHR 0x5C, CHR ''n'']
      else if c = CHR 0x0D then [CHR 0x5C, CHR ''r'']
      else if c = CHR 0x09 then [CHR 0x5C, CHR ''t'']
      else if c = CHR 0x08 then [CHR 0x5C, CHR ''b'']
      else if c = CHR 0x0C then [CHR 0x5C, CHR ''f'']
      else if 32 \<le> (of_char c :: nat) \<and> (of_char c :: nat) \<le> 126 then [c]
      else [CHR 0x5C, CHR ''u'', CHR ''0'', CHR ''0'',
            hex_digit ((of_char c :: nat) div 16), hex_digit (of_char c :: nat)])"

definition json_string :: "string \<Rightarrow> string" where
  "json_string s = CHR 0x22 # concat (map escape_char s) @ [CHR 0x22]"

function dec_nat :: "nat \<Rightarrow> string" where
  "dec_nat n = (if n < 10 then [hex_digit n] else dec_nat (n div 10) @ [hex_digit (n mod 10)])"
  by pat_completeness auto
termination
  by (relation "measure id") auto

declare dec_nat.simps [simp del]

definition dec_int :: "int \<Rightarrow> string" where
  "dec_int i = (if i < 0 then CHR ''-'' # dec_nat (nat (- i)) else dec_nat (nat i))"

fun join :: "string \<Rightarrow> string list \<Rightarrow> string" where
  "join sep [] = []"
| "join sep [x] = x"
| "join sep (x # y # ys) = x @ sep @ join sep (y # ys)"

fun json_dumps :: "pyval \<Rightarrow> string" where
  "json_dumps PNone = ''null''"
| "json_dumps (PBool b) = (if b then ''true'' else ''false'')"
| "json_dumps (PInt i) = dec_int i"
| "json_dumps (PStr s) = json_string s"
| "json_dumps (PList xs) = ''['' @ join '', '' (map json_dumps xs) @ '']''"
| "json_dumps (PDict d) =
     ''{'' @ join '', '' (map (\<lambda>p. json_string (fst p) @ '': '' @ json_dumps (snd p)) d) @ ''}''"

text \<open>
  \<^verbatim>\<open>json.loads\<close>, on documents without fractions and exponents and with characters
  below code point 256. \<open>None\<close> stands for the JSONDecodeError the library raises.
  The parser is a recursive descent over the text; the first argument of the three
  mutually recursive functions bounds the number of nested calls, and
  \<open>json_loads\<close> starts them with more than the text can need.
\<close>

definition is_ws :: "char \<Rightarrow> bool" where
  "is_ws c \<longleftrightarrow> c = CHR '' '' \<or> c = CHR 0x09 \<or> c = CHR 0x0A \<or> c = CHR 0x0D"

definition skip_ws :: "string \<Rightarrow> string" where
  "skip_ws s = dropWhile is_ws s"

definition is_digit :: "char \<Rightarrow> bool" where
  "is_digit c \<longleftrightarrow> 48 \<le> (of_char c :: nat) \<and> (of_char c :: nat) \<le> 57"

definition digits_value :: "string \<Rightarrow> nat" where
  "digits_value ds = foldl (\<lambda>a c. 10 * a + ((of_char c :: nat) - 48)) 0 ds"

definition hex_value :: "char \<Rightarrow> nat option" where
  "hex_value c =
     (let n = (of_char c :: nat) in
      if 48 \<le> n \<and> n \<le> 57 then Some (n - 48)
      else if 97 \<le> n \<and> n \<le> 102 then Some (n - 87)
      else if 65 \<le> n \<and> n \<le> 70 then Some (n - 55)
      else None)"

definition unescape :: "char \<Rightarrow> char option" where
  "unescape e =
     (if e = CHR 0x22 then Some (CHR 0x22)
      else if e = CHR 0x5C then Some (CHR 0x5C)
      else if e = CHR ''/'' then Some (CHR ''/'')
      else if e = CHR ''n'' then Some (CHR 0x0A)
      else if e = CHR ''r'' then Some (CHR 0x0D)
      else if e = CHR ''t'' then Some (CHR 0x09)
      else if e = CHR ''b'' then Some (CHR 0x08)
      else if e = CHR ''f'' then Some (CHR 0x0C)
      else None)"

definition unicode_escape :: "char \<Rightarrow> char \<Rightarrow> char \<Rightarrow> char \<Rightarrow> char option" where
  "unicode_escape a b c d =
     (case (hex_value a, hex_value b, hex_value c, hex_value d) of
        (Some h3, Some h2, Some h1, Some h0) \<Rightarrow>
          (if h3 = 0 \<and> h2 = 0 then Some (char_of (16 * h1 + h0)) else None)
      | _ \<Rightarrow> None)"

text \<open>The characters of a string literal after its opening quote, \<open>acc\<close> reversed.\<close>

fun parse_string :: "string \<Rightarrow> string \<Rightarrow> (string \<times> string) option" where
  "parse_string acc [] = None"
| "parse_string acc (c # cs) =
     (if c = CHR 0x22 then Some (rev acc, cs)
      else if c = CHR 0x5C then
        (case cs of
           [] \<Rightarrow> None
         | e # es \<Rightarrow>
             if e = CHR ''u'' then
               (case es of
                  a # b # c' # d # rest \<Rightarrow>
                    (case unicode_escape a b c' d of
                       None \<Rightarrow> None
                     | Some ch \<Rightarrow> parse_string (ch # acc) rest)
                | _ \<Rightarrow> None)
             else
               (case unescape e of
                  None \<Rightarrow> None
                | Some ch \<Rightarrow> parse_string (ch # acc) es))
      else if (of_char c :: nat) < 32 then None
      else parse_string (c # acc) cs)"

text \<open>An integer literal: an optional minus sign, then digits without a leading zero.\<close>

definition parse_digits :: "string \<Rightarrow> (nat \<times> string) option" where
  "parse_digits s =
     (let ds = takeWhile is_digit s; rest = dropWhile is_digit s in
      if ds = [] then None
      else if hd ds = CHR ''0'' \<and> tl ds \<noteq> [] then None
      else if rest \<noteq> [] \<and> (hd rest = CHR ''.'' \<or> hd rest = CHR ''e'' \<or> hd rest = CHR ''E'') then None
      else Some (digits_value ds, rest))"

definition parse_number :: "string \<Rightarrow> (pyval \<times> string) option" where
  "parse_number s =
     (case s of
        [] \<Rightarrow> None
      | c # cs \<Rightarrow>
          if c = CHR ''-'' then
            (case parse_digits cs of None \<Rightarrow> None | Some (n, rest) \<Rightarrow> Some (PInt (- int n), rest))
          else
            (case parse_digits s of None \<Rightarrow> None | Some (n, rest) \<Rightarrow> Some (PInt (int n), rest)))"

definition parse_literal :: "string \<Rightarrow> (pyval \<times> string) option" where
  "parse_literal s =
     (if take 4 s = ''null'' then Some (PNone, drop 4 s)
      else if take 4 s = ''true'' then Some (PBool True, drop 4 s)
      else if take 5 s = ''false'' then Some (PBool False, drop 5 s)
      else parse_number s)"

fun parse_value :: "nat \<Rightarrow> string \<Rightarrow> (pyval \<times> string) option"
  and parse_items :: "nat \<Rightarrow> pyval list \<Rightarrow> string \<Rightarrow> (pyval list \<times> string) option"
  and parse_members :: "nat \<Rightarrow> (string \<times> pyval) list \<Rightarrow> string \<Rightarrow> ((string \<times> pyval) list \<times> string) option"
where
  "parse_value 0 s = None"
| "parse_value (Suc n) s =
     (case skip_ws s of
        [] \<Rightarrow> None
      | c # cs \<Rightarrow>
          if c = CHR ''['' then
            (case skip_ws cs of
               [] \<Rightarrow> None
             | d # ds \<Rightarrow>
                 if d = CHR '']'' then Some (PList [], ds)
                 else (case parse_items n [] cs of
                         None \<Rightarrow> None
                       | Some (xs, rest) \<Rightarrow> Some (PList xs, rest)))
          else if c = CHR ''{'' then
            (case skip_ws cs of
               [] \<Rightarrow> None
             | d # ds \<Rightarrow>
                 if d = CHR ''}'' then Some (PDict [], ds)
                 else (case parse_members n [] cs of
                         None \<Rightarrow> None
                       | Some (kvs, rest) \<Rightarrow> Some (PDict kvs, rest)))
          else if c = CHR 0x22 then
            (case parse_string [] cs of
               None \<Rightarrow> None
             | Some (t, rest) \<Rightarrow> Some (PStr t, rest))
          else parse_literal (c # cs))"
| "parse_items 0 acc s = None"
| "parse_items (Suc n) acc s =
     (case parse_value n s of
        None \<Rightarrow> None
      | Some (v, rest) \<Rightarrow>
          (case skip_ws rest of
             [] \<Rightarrow> None
           | c # cs \<Rightarrow>
               if c = CHR '','' then parse_items n (acc @ [v]) cs
               else if c = CHR '']'' then Some (acc @ [v], cs)
               else None))"
| "parse_members 0 acc s = None"
| "parse_members (Suc n) acc s =
     (case skip_ws s of
        [] \<Rightarrow> None
      | q # qs \<Rightarrow>
          if q \<noteq> CHR 0x22 then None
          else
            (case parse_string [] qs of
               None \<Rightarrow> None
             | Some (k, r1) \<Rightarrow>
                 (case skip_ws r1 of
                    [] \<Rightarrow> None
                  | c # cs \<Rightarrow>
                      if c \<noteq> CHR '':'' then None
                      else
                        (case parse_value n cs of
                           None \<Rightarrow> None
                         | Some (v, r2) \<Rightarrow>
                             (case skip_ws r2 of
                                [] \<Rightarrow> None
                              | e # es \<Rightarrow>
                                  if e = CHR '','' then parse_members n (dict_set acc k v) es
                                  else if e = CHR ''}'' then Some (dict_set acc k v, es)
                                  else None)))))"

definition json_loads :: "string \<Rightarrow> pyval option" where
  "json_loads s =
     (case parse_value (Suc (length s)) s of
        None \<Rightarrow> None
      | Some (v, rest) \<Rightarrow> if skip_ws rest = [] then Some v else None)"






section \<open>The world the program runs in\<close>

text \<open>
  The file system maps a path to a regular file with its text or to a directory. The
  list objects that the program mutates live in \<open>heap\<close>, addressed by their index,
  so that a caller and a callee can hold the same list. \<open>out\<close> is standard output
  (the objects handed to \<^verbatim>\<open>print\<close>), \<open>err\<close> the lines printed to standard error,
  \<open>log\<close> the records given to \<^verbatim>\<open>logging\<close> at level INFO and above, and \<open>posts\<close>
  the requests sent to the backend (endpoint and body).
\<close>

datatype node = File string | Dir

datatype log_event =
    ReadingConfig string
  | ConfigNotFound
  | HistoryFileMissing pyval
  | HistoryWillBeCreated
  | HistoryReadFailed pyval
  | TakingLast pyval
  | HistoryWriteFailed pyval
  | RemovingFile pyval
  | OutputFileMissing pyval
  | QueryResolved string
  | WaitingForResponse
  | BackendFailed

record state =
  fs :: "string \<rightharpoonup> node"
  heap :: "pyval list list"
  out :: "pyval list"
  err :: "string list"
  log :: "log_event list"
  posts :: "(pyval \<times> string) list"

definition logging :: "log_event \<Rightarrow> state \<Rightarrow> state" where
  "logging e s = s\<lparr>log := log s @ [e]\<rparr>"

definition print_err :: "string \<Rightarrow> state \<Rightarrow> state" where
  "print_err line s = s\<lparr>err := err s @ [line]\<rparr>"

definition print_out :: "pyval \<Rightarrow> state \<Rightarrow> state" where
  "print_out v s = s\<lparr>out := out s @ [v]\<rparr>"

text \<open>
  \<^verbatim>\<open>os.path.exists\<close>: the empty path names nothing; None, a list or a dictionary is
  a TypeError; an integer would be a file descriptor.
\<close>

fun os_path_exists :: "state \<Rightarrow> pyval \<Rightarrow> bool res" where
  "os_path_exists s (PStr p) = Inr (p \<noteq> [] \<and> fs s p \<noteq> None)"
| "os_path_exists s (PInt i) = Inl Unmodelled"
| "os_path_exists s (PBool b) = Inl Unmodelled"
| "os_path_exists s _ = Inl TypeError"

text \<open>\<^verbatim>\<open>open(path, 'r')\<close> followed by reading the whole text.\<close>

fun open_read :: "state \<Rightarrow> pyval \<Rightarrow> string res" where
  "open_read s (PStr p) =
     (if p = [] then Inl FileNotFoundError
      else case fs s p of
             None \<Rightarrow> Inl FileNotFoundError
           | Some Dir \<Rightarrow> Inl IsADirectoryError
           | Some (File t) \<Rightarrow> Inr t)"
| "open_read s (PInt i) = Inl Unmodelled"
| "open_read s (PBool b) = Inl Unmodelled"
| "open_read s _ = Inl TypeError"

text \<open>
  \<^verbatim>\<open>open(path, 'w')\<close> followed by writing the text: the file is created or replaced.
  The empty path and a directory cannot be opened for writing. The parent directory
  is taken to exist and to be writable.
\<close>

fun open_write :: "pyval \<Rightarrow> string \<Rightarrow> state \<Rightarrow> state res" where
  "open_write (PStr p) t s =
     (if p = [] then Inl FileNotFoundError
      else case fs s p of
             Some Dir \<Rightarrow> Inl IsADirectoryError
           | _ \<Rightarrow> Inr (s\<lparr>fs := (fs s)(p \<mapsto> File t)\<rparr>))"
| "open_write (PInt i) t s = Inl Unmodelled"
| "open_write (PBool b) t s = Inl Unmodelled"
| "open_write _ t s = Inl TypeError"

text \<open>\<^verbatim>\<open>os.remove\<close>\<close>

fun os_remove :: "pyval \<Rightarrow> state \<Rightarrow> state res" where
  "os_remove (PStr p) s =
     (if p = [] then Inl FileNotFoundError
      else case fs s p of
             None \<Rightarrow> Inl FileNotFoundError
           | Some Dir \<Rightarrow> Inl IsADirectoryError
           | Some (File t) \<Rightarrow> Inr (s\<lparr>fs := (fs s)(p := None)\<rparr>))"
| "os_remove (PInt i) s = Inl Unmodelled"
| "os_remove (PBool b) s = Inl Unmodelled"
| "os_remove _ s = Inl TypeError"

text \<open>A new list object, and appending to an existing one.\<close>

definition new_list :: "pyval list \<Rightarrow> state \<Rightarrow> nat \<times> state" where
  "new_list xs s = (length (heap s), s\<lparr>heap := heap s @ [xs]\<rparr>)"

definition list_append :: "nat \<Rightarrow> pyval \<Rightarrow> state \<Rightarrow> state res" where
  "list_append r v s =
     (if r < length (heap s) then Inr (s\<lparr>heap := (heap s)[r := heap s ! r @ [v]]\<rparr>)
      else Inl Unmodelled)"

definition list_at :: "state \<Rightarrow> nat \<Rightarrow> pyval list" where
  "list_at s r = (if r < length (heap s) then heap s ! r else [])"

text \<open>
  The backend as the program sees it through \<^verbatim>\<open>requests.post\<close>: either the request
  raises a RequestException (no connection, timeout, bad URL), or a response with a
  status code and a body arrives.
\<close>

datatype http_response = RequestFailed | Response nat string

section \<open>The program\<close>

text \<open>\<^verbatim>\<open>read_stdin\<close>: \<open>None\<close> when \<^verbatim>\<open>select\<close> reports no input, else the text stripped.\<close>

definition read_stdin :: "string option \<Rightarrow> string option" where
  "read_stdin stdin = (case stdin of None \<Rightarrow> None | Some input_data \<Rightarrow> Some (strip input_data))"

text \<open>\<^verbatim>\<open>read_yaml_config\<close>; \<open>yaml_safe_load\<close> is the YAML library's parser.\<close>

definition read_yaml_config ::
  "(string \<Rightarrow> pyval res) \<Rightarrow> string \<Rightarrow> state \<Rightarrow> pyval res \<times> state" where
  "read_yaml_config yaml_safe_load config_file s =
     (case os_path_exists s (PStr config_file) of
        Inl e \<Rightarrow> (Inl e, s)
      | Inr ex \<Rightarrow>
          if \<not> ex then
            (Inr (PDict []),
             print_err (''Config file '' @ config_file @
               '' does not exist (use env 'SHELLAI_CONFIG' to change destination).'') s)
          else
            (case open_read s (PStr config_file) of
               Inl e \<Rightarrow> (Inl e, s)
             | Inr text \<Rightarrow>
                 (yaml_safe_load text, logging (ReadingConfig config_file) s)))"

text \<open>\<^verbatim>\<open>read_history\<close>\<close>

definition read_history :: "pyval \<Rightarrow> state \<Rightarrow> pyval res \<times> state" where
  "read_history config s =
     (case py_get config ''enabled'' (PBool False) of
        Inl e \<Rightarrow> (Inl e, s)
      | Inr enabled \<Rightarrow>
     if \<not> truthy enabled then (Inr (PList []), s) else
     (case py_get config ''filepath'' (PStr ''/tmp/minishellai_history.json'') of
        Inl e \<Rightarrow> (Inl e, s)
      | Inr filepath \<Rightarrow>
     (case (if \<not> truthy filepath then Inr False else os_path_exists s filepath) of
        Inl e \<Rightarrow> (Inl e, s)
      | Inr ex \<Rightarrow>
     if \<not> ex then
       (Inr (PList []), logging HistoryWillBeCreated (logging (HistoryFileMissing filepath) s))
     else
     (case py_get config ''max_size'' (PInt 100) of
        Inl e \<Rightarrow> (Inl e, s)
      | Inr max_size \<Rightarrow>
     (case open_read s filepath of
        Inl e \<Rightarrow> (Inl e, s)
      | Inr text \<Rightarrow>
     (case json_loads text of
        None \<Rightarrow> (Inr (PList []), logging (HistoryReadFailed filepath) s)
      | Some history \<Rightarrow>
          (py_slice_to history max_size, logging (TakingLast max_size) s)))))))"

text \<open>
  \<^verbatim>\<open>write_history\<close>; \<open>history\<close> is the address of the caller's list. The handler of
  the \<^verbatim>\<open>try\<close> statement catches \<^verbatim>\<open>json.JSONDecodeError\<close> only.
\<close>

definition write_history :: "pyval \<Rightarrow> nat \<Rightarrow> pyval \<Rightarrow> state \<Rightarrow> unit res \<times> state" where
  "write_history config history response s =
     (case py_get config ''enabled'' (PBool False) of
        Inl e \<Rightarrow> (Inl e, s)
      | Inr enabled \<Rightarrow>
     if \<not> truthy enabled then (Inr (), s) else
     (case py_get config ''filepath'' (PStr ''/tmp/minishellai_history.json'') of
        Inl e \<Rightarrow> (Inl e, s)
      | Inr filepath \<Rightarrow>
     (case list_append history (PDict [(''role'', PStr ''assistant''), (''content'', response)]) s of
        Inl e \<Rightarrow> (Inl e, s)
      | Inr s1 \<Rightarrow>
     (case open_write filepath (json_dumps (PList (list_at s1 history))) s1 of
        Inl e \<Rightarrow>
          if e = JSONDecodeError then (Inr (), logging (HistoryWriteFailed filepath) s1)
          else (Inl e, s1)
      | Inr s2 \<Rightarrow> (Inr (), s2)))))"

text \<open>
  \<^verbatim>\<open>get_payload\<close>: the dictionary \<^verbatim>\<open>{"msg": [...], "metadata": {}}\<close>, whose message
  list is a new list object.
\<close>

record payload =
  msg :: nat
  metadata :: pyval

definition get_payload :: "string \<Rightarrow> pyval \<Rightarrow> state \<Rightarrow> payload res \<times> state" where
  "get_payload query history s =
     (case py_iter history of
        Inl e \<Rightarrow> (Inl e, s)
      | Inr items \<Rightarrow>
          (case new_list (items @ [PDict [(''role'', PStr ''user''), (''content'', PStr query)]]) s of
             (r, s1) \<Rightarrow> (Inr \<lparr>msg = r, metadata = PDict []\<rparr>, s1)))"

definition payload_value :: "state \<Rightarrow> payload \<Rightarrow> pyval" where
  "payload_value s p = PDict [(''msg'', PList (list_at s (msg p))), (''metadata'', metadata p)]"

text \<open>\<^verbatim>\<open>handle_caret\<close>\<close>

definition handle_caret :: "string \<Rightarrow> pyval \<Rightarrow> state \<Rightarrow> string res \<times> state" where
  "handle_caret query config s =
     (if CHR ''^'' \<notin> set query then (Inr query, s) else
     (case py_get config ''output_capture_settings'' (PDict []) of
        Inl e \<Rightarrow> (Inl e, s)
      | Inr output_capture_settings \<Rightarrow>
     (case py_get output_capture_settings ''captured_output_file''
             (PStr ''/tmp/minishellai_output.txt'') of
        Inl e \<Rightarrow> (Inl e, s)
      | Inr captured_output_file \<Rightarrow>
     (case os_path_exists s captured_output_file of
        Inl e \<Rightarrow> (Inl e, s)
      | Inr ex \<Rightarrow>
     if \<not> ex then (Inl (SystemExit 1), logging (OutputFileMissing captured_output_file) s) else
     (case py_get output_capture_settings ''prompt_separator'' (PStr ''$'') of
        Inl e \<Rightarrow> (Inl e, s)
      | Inr prompt_separator \<Rightarrow>
     (case open_read s captured_output_file of
        Inl e \<Rightarrow> (Inl e, s)
      | Inr text \<Rightarrow>
     (case py_split text prompt_separator of
        Inl e \<Rightarrow> (Inl e, s)
      | Inr pieces \<Rightarrow>
     (case py_last pieces of
        Inl e \<Rightarrow> (Inl e, s)
      | Inr piece \<Rightarrow>
          (Inr (''Context data: '' @ strip piece @ ''\<newline>Question: '' @
                filter (\<lambda>c. c \<noteq> CHR ''^'') query), s)))))))))"

text \<open>
  The part of \<^verbatim>\<open>handle_query\<close> after the request has been sent: the status check
  of \<^verbatim>\<open>raise_for_status\<close>, the decoding of the body, the history write and the
  print. A RequestException (also the one \<^verbatim>\<open>response.json()\<close> raises on a body
  that is not JSON) is caught by the handler, which logs and exits with status 1;
  every other exception leaves the function.
\<close>

definition handle_response ::
  "pyval \<Rightarrow> payload \<Rightarrow> http_response \<Rightarrow> state \<Rightarrow> unit res \<times> state" where
  "handle_response history_conf payload response s =
     (case response of
        RequestFailed \<Rightarrow> (Inl (SystemExit 1), logging BackendFailed s)
      | Response status body \<Rightarrow>
          if 400 \<le> status \<and> status < 600 then (Inl (SystemExit 1), logging BackendFailed s)
          else
            (case json_loads body of
               None \<Rightarrow> (Inl (SystemExit 1), logging BackendFailed s)
             | Some completion \<Rightarrow>
                 (case py_get completion ''data'' PNone of
                    Inl e \<Rightarrow> (Inl e, s)
                  | Inr response_data \<Rightarrow>
                      (case write_history history_conf (msg payload) response_data s of
                         (Inl e, s1) \<Rightarrow> (Inl e, s1)
                       | (Inr u, s1) \<Rightarrow> (Inr (), print_out response_data s1)))))"

text \<open>\<^verbatim>\<open>handle_query\<close>; \<open>backend\<close> answers a request from its endpoint and body.\<close>

definition handle_query ::
  "(pyval \<Rightarrow> string \<Rightarrow> http_response) \<Rightarrow> string \<Rightarrow> pyval \<Rightarrow> state \<Rightarrow> unit res \<times> state" where
  "handle_query backend query config s =
     (case handle_caret query config s of
        (Inl e, s1) \<Rightarrow> (Inl e, s1)
      | (Inr query1, s1) \<Rightarrow>
     (let s2 = logging (QueryResolved query1) s1 in
     (case py_get config ''backend_service'' (PDict []) of
        Inl e \<Rightarrow> (Inl e, s2)
      | Inr backend_service \<Rightarrow>
     (case py_get backend_service ''query_endpoint'' (PStr ''http://0.0.0.0:8080/api/v1/query/'') of
        Inl e \<Rightarrow> (Inl e, s2)
      | Inr query_endpoint \<Rightarrow>
     (case py_get config ''history'' (PDict []) of
        Inl e \<Rightarrow> (Inl e, s2)
      | Inr history_conf \<Rightarrow>
     (case read_history history_conf s2 of
        (Inl e, s3) \<Rightarrow> (Inl e, s3)
      | (Inr history, s3) \<Rightarrow>
     (case get_payload query1 history s3 of
        (Inl e, s4) \<Rightarrow> (Inl e, s4)
      | (Inr payload, s4) \<Rightarrow>
     (let s5 = logging WaitingForResponse s4;
          body = json_dumps (payload_value s5 payload);
          s6 = s5\<lparr>posts := posts s5 @ [(query_endpoint, body)]\<rparr>
      in handle_response history_conf payload (backend query_endpoint body) s6))))))))"

text \<open>
  \<^verbatim>\<open>start_script_session\<close>; \<open>script\<close> is what the external recording session, given
  its command line, does to the file system while it runs.
\<close>

definition start_script_session ::
  "(string \<Rightarrow> (string \<rightharpoonup> node) \<Rightarrow> (string \<rightharpoonup> node)) \<Rightarrow> pyval \<Rightarrow> state \<Rightarrow> unit res \<times> state" where
  "start_script_session script shellai_tmp_file s =
     (case shellai_tmp_file of
        PStr file \<Rightarrow>
          (let s1 = s\<lparr>fs := script (join '' '' [''script'', ''-f'', file]) (fs s)\<rparr> in
           (case os_path_exists s1 shellai_tmp_file of
              Inl e \<Rightarrow> (Inl e, s1)
            | Inr ex \<Rightarrow>
                if ex then
                  (let s2 = logging (RemovingFile shellai_tmp_file) s1 in
                   (case os_remove shellai_tmp_file s2 of
                      Inl e \<Rightarrow> (Inl e, s2)
                    | Inr s3 \<Rightarrow> (Inr (), s3)))
                else (Inr (), s1)))
      | _ \<Rightarrow> (Inl TypeError, s))"

text \<open>
  The main program. Its inputs: the program name and the arguments of the command
  line, the text on standard input (\<open>None\<close> when nothing is waiting there), and the
  value of the environment variable \<^verbatim>\<open>SHELLAI_CONFIG\<close>.
\<close>

definition usage :: "string \<Rightarrow> string" where
  "usage argv0 = ''Usage: '' @ argv0 @ '' <'record'|query-like-string>''"

text \<open>Lines 182 to 195: record mode or query mode.\<close>

definition dispatch ::
  "(pyval \<Rightarrow> string \<Rightarrow> http_response) \<Rightarrow> (string \<Rightarrow> (string \<rightharpoonup> node) \<Rightarrow> (string \<rightharpoonup> node)) \<Rightarrow>
   string \<Rightarrow> string list \<Rightarrow> string option \<Rightarrow> pyval \<Rightarrow> pyval \<Rightarrow> state \<Rightarrow> unit res \<times> state" where
  "dispatch backend script argv0 args query config captured_output_file s =
     (if args \<noteq> [] \<and> hd args = ''record'' then start_script_session script captured_output_file s
      else
        (let arg_query = concat args in
         if arg_query \<noteq> [] then
           (case query of
              Some q \<Rightarrow> handle_query backend (q @ ''\<newline>'' @ arg_query) config s
            | None \<Rightarrow> handle_query backend arg_query config s)
         else
           (case query of
              None \<Rightarrow> (Inl (SystemExit 1), print_err (usage argv0) s)
            | Some q \<Rightarrow> handle_query backend q config s)))"

text \<open>Lines 174 to 180: the settings of the output capture and the session guard.\<close>

definition guarded ::
  "(pyval \<Rightarrow> string \<Rightarrow> http_response) \<Rightarrow> (string \<Rightarrow> (string \<rightharpoonup> node) \<Rightarrow> (string \<rightharpoonup> node)) \<Rightarrow>
   string \<Rightarrow> string list \<Rightarrow> string option \<Rightarrow> pyval \<Rightarrow> state \<Rightarrow> unit res \<times> state" where
  "guarded backend script argv0 args query config s =
     (case py_get config ''output_capture_settings'' (PDict []) of
        Inl e \<Rightarrow> (Inl e, s)
      | Inr output_capture_settings \<Rightarrow>
     (case py_get output_capture_settings ''enforce_script_session'' (PBool False) of
        Inl e \<Rightarrow> (Inl e, s)
      | Inr enforce_script_session \<Rightarrow>
     (case py_get output_capture_settings ''captured_output_file''
             (PStr ''/tmp/minishellai_output.txt'') of
        Inl e \<Rightarrow> (Inl e, s)
      | Inr captured_output_file \<Rightarrow>
     (case (if truthy enforce_script_session \<and> args \<noteq> [] \<and> hd args \<noteq> ''record''
            then (case os_path_exists s captured_output_file of
                    Inl e \<Rightarrow> Inl e
                  | Inr ex \<Rightarrow> Inr (\<not> ex))
            else Inr False) of
        Inl e \<Rightarrow> (Inl e, s)
      | Inr refuse \<Rightarrow>
          if refuse then
            (Inl (SystemExit 1),
             print_err (''Please call `'' @ argv0 @ '' record` first to initialize script session.'') s)
          else dispatch backend script argv0 args query config captured_output_file s))))"

text \<open>Lines 159 to 163: the query that standard input gives, if any.\<close>

definition stdin_query :: "string option \<Rightarrow> string option" where
  "stdin_query stdin =
     (case read_stdin stdin of
        None \<Rightarrow> None
      | Some input_data \<Rightarrow> if input_data \<noteq> [] then Some (strip input_data) else None)"

definition main ::
  "(string \<Rightarrow> pyval res) \<Rightarrow> (pyval \<Rightarrow> string \<Rightarrow> http_response) \<Rightarrow>
   (string \<Rightarrow> (string \<rightharpoonup> node) \<Rightarrow> (string \<rightharpoonup> node)) \<Rightarrow>
   string \<Rightarrow> string list \<Rightarrow> string option \<Rightarrow> string option \<Rightarrow> state \<Rightarrow> unit res \<times> state" where
  "main yaml_safe_load backend script argv0 args stdin shellai_config s =
     (let query = stdin_query stdin in
      if args = [] \<and> query = None then (Inl (SystemExit 1), print_err (usage argv0) s)
      else
        (let config_path = (case shellai_config of None \<Rightarrow> ''config.yaml'' | Some p \<Rightarrow> p) in
         (case read_yaml_config yaml_safe_load config_path s of
            (Inl e, s1) \<Rightarrow> (Inl e, s1)
          | (Inr config, s1) \<Rightarrow>
              guarded backend script argv0 args query config
                (if \<not> truthy config then logging ConfigNotFound s1 else s1))))"

text \<open>
  The exit status of the process: 0 when the program runs to its end, the argument
  of \<^verbatim>\<open>exit\<close>, and 1 when any other exception is not handled.
\<close>

fun exit_status :: "unit res \<Rightarrow> int" where
  "exit_status (Inr u) = 0"
| "exit_status (Inl (SystemExit n)) = n"
| "exit_status (Inl e) = 1"

section \<open>Message roles\<close>

text \<open>
  The comment in \<^verbatim>\<open>get_payload\<close> asks for a message list whose roles alternate
  between "user" and "assistant", with "user" first.
\<close>

fun role_of :: "pyval \<Rightarrow> pyval option" where
  "role_of (PDict d) = map_of d ''role''"
| "role_of _ = None"

fun alternating :: "bool \<Rightarrow> pyval list \<Rightarrow> bool" where
  "alternating u [] = True"
| "alternating u (m # ms) =
     (role_of m = Some (PStr (if u then ''user'' else ''assistant'')) \<and> alternating (\<not> u) ms)"

definition roles_alternate :: "pyval list \<Rightarrow> bool" where
  "roles_alternate msgs = alternating True msgs"

section \<open>Example inputs\<close>

definition user_message :: "string \<Rightarrow> pyval" where
  "user_message c = PDict [(''role'', PStr ''user''), (''content'', PStr c)]"

definition assistant_message :: "pyval \<Rightarrow> pyval" where
  "assistant_message v = PDict [(''role'', PStr ''assistant''), (''content'', v)]"

definition empty_state :: state where
  "empty_state = \<lparr>fs = Map.empty, heap = [], out = [], err = [], log = [], posts = []\<rparr>"

text \<open>A history file with three entries, as \<^verbatim>\<open>json.dump\<close> writes it.\<close>

definition three_messages :: "pyval list" where
  "three_messages = [user_message ''q1'', assistant_message (PStr ''a1''), user_message ''q2'']"

definition stored_state :: state where
  "stored_state =
     empty_state\<lparr>fs := [''/tmp/minishellai_history.json'' \<mapsto> File (json_dumps (PList three_messages))]\<rparr>"

text \<open>A process that holds one list object, with one user message.\<close>

definition one_list_state :: state where
  "one_list_state = empty_state\<lparr>heap := [[user_message ''q1'']]\<rparr>"

text \<open>A backend that answers every request with status 200 and the given data.\<close>

definition answering :: "pyval \<Rightarrow> pyval \<Rightarrow> string \<Rightarrow> http_response" where
  "answering v endpoint body = Response 200 (json_dumps (PDict [(''data'', v)]))"

text \<open>A recording session that leaves the file system as it is.\<close>

definition no_script :: "string \<Rightarrow> (string \<rightharpoonup> node) \<Rightarrow> (string \<rightharpoonup> node)" where
  "no_script command files = files"

text \<open>
  A loader for the configuration documents of the examples: an empty document loads
  as None, and a document in YAML's flow style, which is JSON, loads as the JSON
  library reads it.
\<close>

definition yaml_flow_load :: "string \<Rightarrow> pyval res" where
  "yaml_flow_load text =
     (if skip_ws text = [] then Inr PNone
      else case json_loads text of None \<Rightarrow> Inl YAMLError | Some v \<Rightarrow> Inr v)"

text \<open>History settings: switched off; limited to two entries; with a negative limit.\<close>

definition disabled_history :: "(string \<times> pyval) list" where
  "disabled_history = [(''enabled'', PBool False), (''max_size'', PInt 2)]"

definition two_entry_history :: "(string \<times> pyval) list" where
  "two_entry_history = [(''enabled'', PBool True), (''max_size'', PInt 2)]"

definition negative_history :: "(string \<times> pyval) list" where
  "negative_history = [(''enabled'', PBool True), (''max_size'', PInt (- 1))]"

text \<open>The settings of the output capture left at their defaults, and the captured file.\<close>

definition captured_state :: state where
  "captured_state =
     empty_state\<lparr>fs := [''/tmp/minishellai_output.txt'' \<mapsto>
       File ''$ ls\<newline>file1\<newline>file2\<newline>$ pwd\<newline>/home\<newline>'']\<rparr>"

text \<open>A configuration file that exists and is empty.\<close>

definition empty_config_state :: state where
  "empty_config_state = empty_state\<lparr>fs := [''config.yaml'' \<mapsto> File []]\<rparr>"




text \<open>
  Two invocations, one after the other, with a history limited to one entry. The
  second process starts with the files the first one left.
\<close>

definition one_entry_config :: pyval where
  "one_entry_config = PDict [(''history'', PDict [(''enabled'', PBool True), (''max_size'', PInt 1)])]"

definition first_run :: "unit res \<times> state" where
  "first_run = handle_query (answering (PStr ''a1'')) ''q1'' one_entry_config empty_state"

definition second_run :: "unit res \<times> state" where
  "second_run =
     handle_query (answering (PStr ''a2'')) ''q2'' one_entry_config
       (empty_state\<lparr>fs := fs (snd first_run)\<rparr>)"

text \<open>A history whose file path is the empty string, and a query run with it.\<close>

definition unwritable_config :: pyval where
  "unwritable_config =
     PDict [(''history'', PDict [(''enabled'', PBool True), (''filepath'', PStr [])])]"

definition unwritable_run :: "unit res \<times> state" where
  "unwritable_run =
     handle_query (answering (PStr ''the answer'')) ''hello'' unwritable_config empty_state"

section \<open>Writing and reading back JSON\<close>










































section \<open>History that is switched off\<close>

text \<open>
  Claim C8. When the history settings have \<open>enabled\<close> false, or no \<open>enabled\<close> key
  at all, \<^verbatim>\<open>read_history\<close> returns the empty list and \<^verbatim>\<open>write_history\<close> returns
  without writing: both leave the whole state, the file system included, as it was,
  whatever the files hold and whatever list and response are passed.
\<close>

theorem disabled_history_no_effect:
  assumes "map_of d ''enabled'' = None \<or> map_of d ''enabled'' = Some (PBool False)"
  shows "read_history (PDict d) s = (Inr (PList []), s) \<and>
         write_history (PDict d) history response s = (Inr (), s)"
  using assms by (auto simp: read_history_def write_history_def dict_get_def)

theorem disabled_history_no_effect_witness:
  "read_history (PDict disabled_history) stored_state = (Inr (PList []), stored_state) \<and>
   write_history (PDict disabled_history) 0 (PStr ''ok'') stored_state = (Inr (), stored_state) \<and>
   read_history (PDict []) stored_state = (Inr (PList []), stored_state) \<and>
   write_history (PDict []) 0 (PStr ''ok'') stored_state = (Inr (), stored_state)"
proof -
  have off: "map_of disabled_history ''enabled'' = Some (PBool False)"
    by (simp add: disabled_history_def)
  have absent: "map_of ([] :: (string \<times> pyval) list) ''enabled'' = None"
    by simp
  show ?thesis
    using disabled_history_no_effect [OF disjI2, OF off, of stored_state 0 "PStr ''ok''"]
      disabled_history_no_effect [OF disjI1, OF absent, of stored_state 0 "PStr ''ok''"]
    by simp
qed

section \<open>Reading and writing the history\<close>

lemma three_messages_load:
  "json_loads (json_dumps (PList three_messages)) = Some (PList three_messages)"
  unfolding three_messages_def user_message_def assistant_message_def
  by code_simp

lemma open_write_Inr:
  "open_write p t s = Inr s' \<Longrightarrow>
     \<exists>q. p = PStr q \<and> q \<noteq> [] \<and> fs s q \<noteq> Some Dir \<and> s' = s\<lparr>fs := (fs s)(q \<mapsto> File t)\<rparr>"
  by (cases p) (auto split: if_splits option.splits node.splits)


text \<open>
  Claim C1, amended. When the history is enabled, the configured file holds a JSON
  list, and \<open>max_size\<close> (100 when the key is absent) is an integer that is not
  negative and smaller than the number of stored entries, \<^verbatim>\<open>read_history\<close> returns
  exactly the first \<open>max_size\<close> entries of the stored list.
\<close>

theorem read_history_keeps_first_entries:
  assumes "truthy (dict_get d ''enabled'' (PBool False))"
    and "dict_get d ''filepath'' (PStr ''/tmp/minishellai_history.json'') = PStr p"
    and "p \<noteq> []" and "fs s p = Some (File text)"
    and "json_loads text = Some (PList xs)"
    and "dict_get d ''max_size'' (PInt 100) = PInt m"
    and "0 \<le> m" and "m < int (length xs)"
  shows "fst (read_history (PDict d) s) = Inr (PList (take (nat m) xs)) \<and>
         int (length (take (nat m) xs)) = m"
  using assms by (simp add: read_history_def slice_opt_def slice_to_def)

theorem read_history_keeps_first_entries_witness:
  "fst (read_history (PDict two_entry_history) stored_state) =
     Inr (PList [user_message ''q1'', assistant_message (PStr ''a1'')])"
proof -
  have h1: "truthy (dict_get two_entry_history ''enabled'' (PBool False))"
    by (simp add: two_entry_history_def dict_get_def)
  have h2: "dict_get two_entry_history ''filepath'' (PStr ''/tmp/minishellai_history.json'') =
              PStr ''/tmp/minishellai_history.json''"
    by (simp add: two_entry_history_def dict_get_def)
  have h3: "''/tmp/minishellai_history.json'' \<noteq> []"
    by simp
  have h4: "fs stored_state ''/tmp/minishellai_history.json'' =
              Some (File (json_dumps (PList three_messages)))"
    by (simp add: stored_state_def empty_state_def del: json_dumps.simps)
  have h6: "dict_get two_entry_history ''max_size'' (PInt 100) = PInt 2"
    by (simp add: two_entry_history_def dict_get_def)
  have h7: "(0::int) \<le> 2"
    by simp
  have h8: "2 < int (length three_messages)"
    by (simp add: three_messages_def)
  from read_history_keeps_first_entries [OF h1 h2 h3 h4 three_messages_load h6 h7 h8]
  show ?thesis
    by (simp add: three_messages_def)
qed

text \<open>
  Claim C1 as stated fails for a negative \<open>max_size\<close>: with \<open>max_size\<close> -1 and three
  stored entries, which are more than -1, the slice \<^verbatim>\<open>history[:-1]\<close> returns two
  entries, not the first -1 (or no) entries.
\<close>

theorem read_history_negative_max_size_counterexample:
  "truthy (dict_get negative_history ''enabled'' (PBool False)) \<and>
   dict_get negative_history ''max_size'' (PInt 100) = PInt (- 1) \<and>
   - 1 < int (length three_messages) \<and>
   fst (read_history (PDict negative_history) stored_state) =
     Inr (PList [user_message ''q1'', assistant_message (PStr ''a1'')]) \<and>
   fst (read_history (PDict negative_history) stored_state) \<noteq>
     Inr (PList (take (nat (- 1)) three_messages)) \<and>
   int (length [user_message ''q1'', assistant_message (PStr ''a1'')]) \<noteq> - 1"
  unfolding negative_history_def stored_state_def three_messages_def empty_state_def
    user_message_def assistant_message_def
  by code_simp




text \<open>
  Claim C9, amended. When the history is enabled, \<^verbatim>\<open>write_history\<close> changes the list
  object it is given: after the call, whether the file could be written or not, the
  caller's list holds its old entries followed by the assistant entry.
\<close>

theorem write_history_appends_in_place:
  assumes "truthy (dict_get d ''enabled'' (PBool False))"
    and "history < length (heap s)"
  shows "list_at (snd (write_history (PDict d) history response s)) history =
         list_at s history @ [PDict [(''role'', PStr ''assistant''), (''content'', response)]]"
  using assms
  by (auto simp: write_history_def list_append_def list_at_def logging_def
           simp del: json_dumps.simps
           split: sum.splits dest!: open_write_Inr)

theorem write_history_appends_in_place_witness:
  "list_at one_list_state 0 = [user_message ''q1''] \<and>
   list_at (snd (write_history (PDict two_entry_history) 0 (PStr ''ok'') one_list_state)) 0 =
     [user_message ''q1'', assistant_message (PStr ''ok'')]"
proof -
  have h1: "truthy (dict_get two_entry_history ''enabled'' (PBool False))"
    by (simp add: two_entry_history_def dict_get_def)
  have h2: "0 < length (heap one_list_state)"
    by (simp add: one_list_state_def empty_state_def)
  have before: "list_at one_list_state 0 = [user_message ''q1'']"
    by (simp add: list_at_def one_list_state_def empty_state_def)
  from write_history_appends_in_place [OF h1 h2, of "PStr ''ok''"] before
  show ?thesis
    by (simp add: assistant_message_def)
qed

text \<open>
  Claim C9 as stated fails when the history is switched off: \<^verbatim>\<open>write_history\<close>
  returns before the append and the caller's list is what it was.
\<close>

theorem write_history_disabled_counterexample:
  "list_at (snd (write_history (PDict disabled_history) 0 (PStr ''ok'') one_list_state)) 0 =
     [user_message ''q1''] \<and>
   list_at (snd (write_history (PDict disabled_history) 0 (PStr ''ok'') one_list_state)) 0 \<noteq>
     list_at one_list_state 0 @ [assistant_message (PStr ''ok'')]"
  by (simp add: write_history_def disabled_history_def dict_get_def list_at_def
        one_list_state_def empty_state_def)

section \<open>The captured output\<close>

lemma split_example:
  "split_from ''$'' [] ''$ ls\<newline>file1\<newline>file2\<newline>$ pwd\<newline>/home\<newline>'' =
     [[], '' ls\<newline>file1\<newline>file2\<newline>'', '' pwd\<newline>/home\<newline>'']"
  by code_simp

lemma strip_example: "strip '' pwd\<newline>/home\<newline>'' = ''pwd\<newline>/home''"
  by (simp add: strip_def py_isspace_def)

text \<open>
  Claim C6. With a captured-output file that holds the five lines of the example and
  the prompt separator "$" (configured, or by default), \<^verbatim>\<open>handle_caret\<close> turns the
  query "tell me about ^" into the text of the last segment of the file, stripped,
  as context, followed by the query without its marker.
\<close>

theorem handle_caret_example:
  assumes "py_get config ''output_capture_settings'' (PDict []) = Inr (PDict ocs)"
    and "dict_get ocs ''captured_output_file'' (PStr ''/tmp/minishellai_output.txt'') = PStr p"
    and "p \<noteq> []"
    and "fs s p = Some (File ''$ ls\<newline>file1\<newline>file2\<newline>$ pwd\<newline>/home\<newline>'')"
    and "dict_get ocs ''prompt_separator'' (PStr ''$'') = PStr ''$''"
  shows "handle_caret ''tell me about ^'' config s =
           (Inr ''Context data: pwd\<newline>/home\<newline>Question: tell me about '', s)"
  using assms
  by (simp add: handle_caret_def split_example strip_example py_last_def del: split_from.simps)

theorem handle_caret_example_witness:
  "handle_caret ''tell me about ^'' (PDict []) captured_state =
     (Inr ''Context data: pwd\<newline>/home\<newline>Question: tell me about '', captured_state)"
proof -
  have h1: "py_get (PDict []) ''output_capture_settings'' (PDict []) = Inr (PDict [])"
    by (simp add: dict_get_def)
  have h2: "dict_get [] ''captured_output_file'' (PStr ''/tmp/minishellai_output.txt'') =
              PStr ''/tmp/minishellai_output.txt''"
    by (simp add: dict_get_def)
  have h3: "''/tmp/minishellai_output.txt'' \<noteq> []"
    by simp
  have h4: "fs captured_state ''/tmp/minishellai_output.txt'' =
              Some (File ''$ ls\<newline>file1\<newline>file2\<newline>$ pwd\<newline>/home\<newline>'')"
    by (simp add: captured_state_def empty_state_def)
  have h5: "dict_get [] ''prompt_separator'' (PStr ''$'') = PStr ''$''"
    by (simp add: dict_get_def)
  from handle_caret_example [OF h1 h2 h3 h4 h5]
  show ?thesis .
qed

text \<open>
  Claim C7. For a query that contains the marker, when the configured captured-output
  file does not exist, \<^verbatim>\<open>handle_caret\<close> logs an error and raises the exit with
  status 1: it returns no query, and \<^verbatim>\<open>handle_query\<close>, which calls it outside its
  \<^verbatim>\<open>try\<close>, ends the process with status 1.
\<close>

theorem handle_caret_missing_file:
  assumes "CHR ''^'' \<in> set query"
    and "py_get config ''output_capture_settings'' (PDict []) = Inr (PDict ocs)"
    and "dict_get ocs ''captured_output_file'' (PStr ''/tmp/minishellai_output.txt'') = PStr p"
    and "p = [] \<or> fs s p = None"
  shows "handle_caret query config s =
           (Inl (SystemExit 1), logging (OutputFileMissing (PStr p)) s) \<and>
         fst (handle_query backend query config s) = Inl (SystemExit 1) \<and>
         exit_status (fst (handle_query backend query config s)) = 1 \<and>
         posts (snd (handle_query backend query config s)) = posts s"
  using assms by (auto simp: handle_caret_def handle_query_def logging_def)

theorem handle_caret_missing_file_witness:
  "handle_caret ''tell me about ^'' (PDict []) empty_state =
     (Inl (SystemExit 1),
      logging (OutputFileMissing (PStr ''/tmp/minishellai_output.txt'')) empty_state) \<and>
   exit_status (fst (handle_query (answering (PStr ''hi'')) ''tell me about ^'' (PDict []) empty_state)) = 1"
proof -
  have h1: "CHR ''^'' \<in> set ''tell me about ^''"
    by simp
  have h2: "py_get (PDict []) ''output_capture_settings'' (PDict []) = Inr (PDict [])"
    by (simp add: dict_get_def)
  have h3: "dict_get [] ''captured_output_file'' (PStr ''/tmp/minishellai_output.txt'') =
              PStr ''/tmp/minishellai_output.txt''"
    by (simp add: dict_get_def)
  have h4: "''/tmp/minishellai_output.txt'' = [] \<or>
            fs empty_state ''/tmp/minishellai_output.txt'' = None"
    by (simp add: empty_state_def)
  from handle_caret_missing_file [OF h1 h2 h3 h4, of "answering (PStr ''hi'')"]
  show ?thesis
    by simp
qed

section \<open>The configuration file and the session guard\<close>




text \<open>
  Claim C10. If the configuration file exists and the YAML parser returns None for
  it, as it does for an empty document, \<^verbatim>\<open>read_yaml_config\<close> returns None, which is
  no mapping; the first \<^verbatim>\<open>config.get\<close> of the main program then raises an
  AttributeError, and the program, whenever it is started with a query or an argument
  and so gets as far as its configuration, ends with this exception unhandled. If
  the file does not exist, \<^verbatim>\<open>read_yaml_config\<close> returns the empty mapping and the
  main program goes on to its dispatch with the default settings.
\<close>

theorem empty_config_document:
  assumes "config_path = (case shellai_config of None \<Rightarrow> ''config.yaml'' | Some p \<Rightarrow> p)"
    and "config_path \<noteq> []"
  shows "(fs s config_path = Some (File text) \<and> yaml_safe_load text = Inr PNone \<longrightarrow>
            read_yaml_config yaml_safe_load config_path s =
              (Inr PNone, logging (ReadingConfig config_path) s) \<and>
            \<not> truthy PNone \<and>
            guarded backend script argv0 args query PNone s' = (Inl AttributeError, s') \<and>
            (args \<noteq> [] \<or> stdin_query stdin \<noteq> None \<longrightarrow>
               fst (main yaml_safe_load backend script argv0 args stdin shellai_config s) =
                 Inl AttributeError \<and>
               exit_status (fst (main yaml_safe_load backend script argv0 args stdin shellai_config s)) = 1 \<and>
               posts (snd (main yaml_safe_load backend script argv0 args stdin shellai_config s)) =
                 posts s)) \<and>
         (fs s config_path = None \<longrightarrow>
            fst (read_yaml_config yaml_safe_load config_path s) = Inr (PDict []) \<and>
            (args \<noteq> [] \<or> stdin_query stdin \<noteq> None \<longrightarrow>
               main yaml_safe_load backend script argv0 args stdin shellai_config s =
                 dispatch backend script argv0 args (stdin_query stdin) (PDict [])
                   (PStr ''/tmp/minishellai_output.txt'')
                   (logging ConfigNotFound (snd (read_yaml_config yaml_safe_load config_path s)))))"
  using assms
  by (auto simp: main_def read_yaml_config_def guarded_def dict_get_def Let_def logging_def)

theorem empty_config_document_witness:
  "read_yaml_config yaml_flow_load ''config.yaml'' empty_config_state =
     (Inr PNone, logging (ReadingConfig ''config.yaml'') empty_config_state) \<and>
   fst (main yaml_flow_load (answering (PStr ''hi'')) no_script ''prog'' [''hello''] None None
          empty_config_state) = Inl AttributeError \<and>
   fst (read_yaml_config yaml_flow_load ''config.yaml'' empty_state) = Inr (PDict []) \<and>
   main yaml_flow_load (answering (PStr ''hi'')) no_script ''prog'' [''hello''] None None empty_state =
     dispatch (answering (PStr ''hi'')) no_script ''prog'' [''hello''] (stdin_query None) (PDict [])
       (PStr ''/tmp/minishellai_output.txt'')
       (logging ConfigNotFound (snd (read_yaml_config yaml_flow_load ''config.yaml'' empty_state)))"
proof -
  have h1: "''config.yaml'' = (case None :: string option of None \<Rightarrow> ''config.yaml'' | Some p \<Rightarrow> p)"
    by simp
  have h2: "''config.yaml'' \<noteq> []"
    by simp
  have started: "[''hello''] \<noteq> [] \<or> stdin_query None \<noteq> None"
    by simp
  have present: "fs empty_config_state ''config.yaml'' = Some (File []) \<and> yaml_flow_load [] = Inr PNone"
    by (simp add: empty_config_state_def empty_state_def yaml_flow_load_def skip_ws_def)
  have absent: "fs empty_state ''config.yaml'' = None"
    by (simp add: empty_state_def)
  from empty_config_document [OF h1 h2, of empty_config_state "[]" yaml_flow_load
      "answering (PStr ''hi'')" no_script "''prog''" "[''hello'']" None empty_state None]
    empty_config_document [OF h1 h2, of empty_state "[]" yaml_flow_load
      "answering (PStr ''hi'')" no_script "''prog''" "[''hello'']" None empty_state None]
    started present absent
  show ?thesis
    by simp
qed




section \<open>The payload and the answer\<close>

text \<open>
  Claim C3 does not hold of the code. With the history limited to one entry, the
  first invocation sends the user message alone and stores the user message and the
  answer; the second invocation reads back the first entry only and sends two user
  messages in a row.
\<close>

theorem payload_roles_repeat:
  "fst first_run = Inr () \<and>
   fs (snd first_run) ''/tmp/minishellai_history.json'' =
     Some (File (json_dumps (PList [user_message ''q1'', assistant_message (PStr ''a1'')]))) \<and>
   map snd (posts (snd second_run)) =
     [json_dumps (PDict [(''msg'', PList [user_message ''q1'', user_message ''q2'']),
                         (''metadata'', PDict [])])] \<and>
   \<not> roles_alternate [user_message ''q1'', user_message ''q2'']"
  unfolding second_run_def first_run_def one_entry_config_def answering_def empty_state_def
    user_message_def assistant_message_def roles_alternate_def
  by code_simp

text \<open>
  Claim C4 does not hold of the code. With the history enabled and the empty string
  as its file path, the backend is asked and answers, opening the file for writing
  raises FileNotFoundError, the handler for JSONDecodeError does not catch it, nothing
  is logged about the write, and the exception ends the process before the answer is
  printed.
\<close>

theorem failed_write_loses_answer:
  "length (posts (snd unwritable_run)) = 1 \<and>
   fst unwritable_run = Inl FileNotFoundError \<and>
   exit_status (fst unwritable_run) = 1 \<and>
   out (snd unwritable_run) = [] \<and>
   log (snd unwritable_run) =
     [QueryResolved ''hello'', HistoryFileMissing (PStr []), HistoryWillBeCreated,
      WaitingForResponse]"
  unfolding unwritable_run_def unwritable_config_def answering_def empty_state_def
  by code_simp

end
